theory Spec2Isabelle
  imports Complex_Main
begin

section \<open>Minkowski spacetime simulator (1+1 dimensions)\<close>

text \<open>
  A shallow embedding of \<^verbatim>\<open>minkowski_simulator.py\<close>. Coordinates, velocities and
  tolerances are Python floats in the source; the data model of the specification
  declares them real, and they are real numbers here, so \<open>+\<close>, \<open>*\<close> and \<open>/\<close> are exact
  and the literals \<^verbatim>\<open>1e-9\<close> and \<^verbatim>\<open>1e-12\<close> are the rationals \<open>1 / 10 ^ 9\<close> and
  \<open>1 / 10 ^ 12\<close>. Rounding, overflow, infinities and NaN are outside this model.
  A raised exception is the left summand of a sum type; a loop that the source does not
  bound by construction is a partial function into \<open>option\<close>, where \<open>None\<close> means that
  the loop does not return.
\<close>

subsection \<open>Data model\<close>

datatype IntervalType = TIMELIKE | SPACELIKE | NULL

text \<open>
  The dataclasses \<^verbatim>\<open>Event(t, x, label)\<close> and \<^verbatim>\<open>WorldLine(x0, v, t0, label)\<close>. The fields
  carry a prefix because a record field is a constant, and \<open>t\<close>, \<open>x\<close> and \<open>v\<close> are needed
  as variables.
\<close>

record Event =
  ev_t :: real
  ev_x :: real
  ev_label :: string

record WorldLine =
  wl_x0 :: real
  wl_v :: real
  wl_t0 :: real
  wl_label :: string

datatype error = ValueError string | ZeroDivisionError

text \<open>Python's \<^verbatim>\<open>a or b\<close> on strings: the empty string is false.\<close>

definition str_or :: "string \<Rightarrow> string \<Rightarrow> string" where
  "str_or a b = (if a = [] then b else a)"


subsection \<open>World lines\<close>

definition position_at :: "WorldLine \<Rightarrow> real \<Rightarrow> real" where
  "position_at w t = wl_x0 w + wl_v w * (t - wl_t0 w)"

definition event_at :: "WorldLine \<Rightarrow> real \<Rightarrow> string \<Rightarrow> Event" where
  "event_at w t lbl = \<lparr>ev_t = t, ev_x = position_at w t, ev_label = str_or lbl (wl_label w)\<rparr>"

subsection \<open>Interval classifier\<close>

definition spacetime_interval_squared :: "Event \<Rightarrow> Event \<Rightarrow> real \<Rightarrow> real" where
  "spacetime_interval_squared a b c =
     (let dt = ev_t b - ev_t a;
          dx = ev_x b - ev_x a
      in (c * dt) ^ 2 - dx ^ 2)"

definition classify_interval :: "Event \<Rightarrow> Event \<Rightarrow> real \<Rightarrow> real \<Rightarrow> IntervalType" where
  "classify_interval a b c tol =
     (let s2 = spacetime_interval_squared a b c
      in if \<bar>s2\<bar> \<le> tol then NULL
         else if s2 > 0 then TIMELIKE
         else SPACELIKE)"

subsection \<open>Null-line constructor\<close>

text \<open>\<^verbatim>\<open>direction\<close> is a Python int; the test \<^verbatim>\<open>direction not in (-1, 1)\<close> is membership.\<close>

definition null_line_through :: "Event \<Rightarrow> int \<Rightarrow> real \<Rightarrow> string \<Rightarrow> error + WorldLine" where
  "null_line_through event direction c lbl =
     (if direction \<notin> set [- 1, 1] then Inl (ValueError ''direction must be -1 or +1'')
      else Inr \<lparr>wl_x0 = ev_x event, wl_v = real_of_int direction * c,
                wl_t0 = ev_t event, wl_label = lbl\<rparr>)"

subsection \<open>Intersection solver\<close>



subsection \<open>Interaction resolver\<close>


subsection \<open>Stochastic event generator\<close>

text \<open>The decimal digits of a natural number, as the f-string \<^verbatim>\<open>f"{idx}"\<close> prints them.\<close>

fun string_of_nat :: "nat \<Rightarrow> string" where
  "string_of_nat n =
     (if n < 10 then [''0123456789'' ! n]
      else string_of_nat (n div 10) @ [''0123456789'' ! (n mod 10)])"

declare string_of_nat.simps [simp del]

text \<open>
  The random source is a state \<open>rng\<close> of any type with its method \<open>random\<close>, which
  returns the sample and the advanced state; \<open>rng\<close> is the source after the default
  \<^verbatim>\<open>rng or random.Random()\<close> has been taken. The loop of \<^verbatim>\<open>spontaneous_events\<close>
  carries \<open>rng\<close>, \<open>out\<close>, \<open>idx\<close> and \<open>t\<close>.
\<close>

partial_function (option) spontaneous_loop ::
  "('g \<Rightarrow> real \<times> 'g) \<Rightarrow> WorldLine \<Rightarrow> real \<Rightarrow> real \<Rightarrow> real \<Rightarrow> string \<Rightarrow>
   'g \<Rightarrow> Event list \<Rightarrow> nat \<Rightarrow> real \<Rightarrow> (Event list \<times> 'g) option" where
  "spontaneous_loop random worldline t_end dt probability_per_step label_prefix rng out idx t =
     (if t \<le> t_end + 1 / 10 ^ 12 then
        (case random rng of
           (u, rng') \<Rightarrow>
             if u < probability_per_step then
               spontaneous_loop random worldline t_end dt probability_per_step label_prefix rng'
                 (out @ [event_at worldline t (label_prefix @ ''-'' @ string_of_nat idx)])
                 (idx + 1) (t + dt)
             else
               spontaneous_loop random worldline t_end dt probability_per_step label_prefix rng'
                 out idx (t + dt))
      else Some (out, rng))"

text \<open>
  The result is the raised error or the list of events, together with the state in which
  the call leaves the random source.
\<close>

definition spontaneous_events ::
  "('g \<Rightarrow> real \<times> 'g) \<Rightarrow> WorldLine \<Rightarrow> real \<Rightarrow> real \<Rightarrow> real \<Rightarrow> real \<Rightarrow> 'g \<Rightarrow> string \<Rightarrow>
   ((error + Event list) \<times> 'g) option" where
  "spontaneous_events random worldline t_start t_end dt probability_per_step rng label_prefix =
     (if dt \<le> 0 then Some (Inl (ValueError ''dt must be > 0''), rng)
      else if \<not> (0 \<le> probability_per_step \<and> probability_per_step \<le> 1) then
        Some (Inl (ValueError ''probability_per_step must be in [0, 1]''), rng)
      else
        map_option (\<lambda>(out, rng'). (Inr out, rng'))
          (spontaneous_loop random worldline t_end dt probability_per_step label_prefix
             rng [] 0 t_start))"

subsection \<open>Conditional sampler\<close>

text \<open>The divisor \<^verbatim>\<open>max(1, len(sample))\<close> is at least 1, so the division never raises.\<close>

partial_function (option) conditional_loop ::
  "WorldLine list \<Rightarrow> real \<Rightarrow> real \<Rightarrow> (real \<Rightarrow> Event list \<Rightarrow> bool) \<Rightarrow> string \<Rightarrow>
   Event list \<Rightarrow> real \<Rightarrow> Event list option" where
  "conditional_loop lines t_end dt predicate lbl out t =
     (if t \<le> t_end + 1 / 10 ^ 12 then
        (let sample = map (\<lambda>w. event_at w t (wl_label w)) lines
         in if predicate t sample then
              conditional_loop lines t_end dt predicate lbl
                (out @ [\<lparr>ev_t = t,
                          ev_x = sum_list (map ev_x sample) / real (max 1 (length sample)),
                          ev_label = lbl\<rparr>])
                (t + dt)
            else conditional_loop lines t_end dt predicate lbl out (t + dt))
      else Some out)"

definition conditional_simulation ::
  "WorldLine list \<Rightarrow> real \<Rightarrow> real \<Rightarrow> real \<Rightarrow> (real \<Rightarrow> Event list \<Rightarrow> bool) \<Rightarrow> string \<Rightarrow>
   (error + Event list) option" where
  "conditional_simulation worldlines t_start t_end dt predicate lbl =
     (if dt \<le> 0 then Some (Inl (ValueError ''dt must be > 0''))
      else map_option Inr (conditional_loop worldlines t_end dt predicate lbl [] t_start))"

subsection \<open>The time steps and the samples, as the specification words them\<close>

text \<open>
  The number of times \<open>t_start + k \<cdot> dt\<close> that do not exceed \<open>t_end + 1e-12\<close>, those times in
  order, the first \<open>n\<close> samples of a random source with the state they leave it in, and the
  events emitted for the samples below the probability, numbered from \<open>idx\<close> in the order
  of emission.
\<close>

definition step_count :: "real \<Rightarrow> real \<Rightarrow> real \<Rightarrow> nat" where
  "step_count t_start t_end dt =
     (if t_start \<le> t_end + 1 / 10 ^ 12
      then nat \<lfloor>(t_end + 1 / 10 ^ 12 - t_start) / dt\<rfloor> + 1 else 0)"

definition step_times :: "real \<Rightarrow> real \<Rightarrow> real \<Rightarrow> real list" where
  "step_times t_start t_end dt =
     map (\<lambda>k. t_start + real k * dt) [0..<step_count t_start t_end dt]"

fun draws :: "('g \<Rightarrow> real \<times> 'g) \<Rightarrow> nat \<Rightarrow> 'g \<Rightarrow> real list \<times> 'g" where
  "draws random 0 rng = ([], rng)"
| "draws random (Suc n) rng =
     (case random rng of (u, rng') \<Rightarrow>
        (case draws random n rng' of (us, rng'') \<Rightarrow> (u # us, rng'')))"

definition emitted ::
  "WorldLine \<Rightarrow> string \<Rightarrow> real \<Rightarrow> nat \<Rightarrow> real list \<Rightarrow> real list \<Rightarrow> Event list" where
  "emitted w label_prefix p idx ts samples =
     map (\<lambda>(i, s). \<lparr>ev_t = s, ev_x = position_at w s,
                      ev_label = label_prefix @ ''-'' @ string_of_nat i\<rparr>)
       (enumerate idx (map fst (filter (\<lambda>(s, u). u < p) (zip ts samples))))"

subsection \<open>Callers' arguments used in the scenarios\<close>

text \<open>
  A random source that replays a fixed list of samples, the predicate that holds at every
  step, and the predicate of the close-approach test,
  \<^verbatim>\<open>lambda _t, evs: abs(evs[0].x - evs[1].x) <= 0.5\<close>.
\<close>

fun replay :: "real list \<Rightarrow> real \<times> real list" where
  "replay [] = (0, [])"
| "replay (u # us) = (u, us)"

definition always :: "real \<Rightarrow> Event list \<Rightarrow> bool" where
  "always t sample = True"


section \<open>Properties\<close>

subsection \<open>World lines and labels\<close>

lemma event_at_labelled:
  "lbl \<noteq> [] \<Longrightarrow> event_at w t lbl = \<lparr>ev_t = t, ev_x = position_at w t, ev_label = lbl\<rparr>"
  by (simp add: event_at_def str_or_def)

text \<open>
  C10. \<open>event_at w t lbl\<close> is the event at time \<open>t\<close> and position \<open>position_at w t\<close> whose
  label is \<open>lbl\<close> when \<open>lbl\<close> is not empty and the world line's own label otherwise; so the
  default (empty) label and an explicit empty override both give the world line's label,
  as does the call \<^verbatim>\<open>w.event_at(t, label=w.label)\<close> of the conditional sampler.
\<close>

theorem event_at_label:
  "event_at w t lbl =
     \<lparr>ev_t = t, ev_x = position_at w t, ev_label = (if lbl \<noteq> [] then lbl else wl_label w)\<rparr>
   \<and> event_at w t [] =
     \<lparr>ev_t = t, ev_x = wl_x0 w + wl_v w * (t - wl_t0 w), ev_label = wl_label w\<rparr>
   \<and> event_at w t (wl_label w) =
     \<lparr>ev_t = t, ev_x = wl_x0 w + wl_v w * (t - wl_t0 w), ev_label = wl_label w\<rparr>"
  by (simp add: event_at_def str_or_def position_at_def)

theorem event_at_label_witness:
  "event_at \<lparr>wl_x0 = 1, wl_v = 2, wl_t0 = 0, wl_label = ''ship''\<rparr> 3 ''burst'' =
     \<lparr>ev_t = 3, ev_x = 7, ev_label = ''burst''\<rparr>
   \<and> event_at \<lparr>wl_x0 = 1, wl_v = 2, wl_t0 = 0, wl_label = ''ship''\<rparr> 3 [] =
     \<lparr>ev_t = 3, ev_x = 7, ev_label = ''ship''\<rparr>"
  using event_at_label [of "\<lparr>wl_x0 = 1, wl_v = 2, wl_t0 = 0, wl_label = ''ship''\<rparr>" 3 "''burst''"]
    event_at_label [of "\<lparr>wl_x0 = 1, wl_v = 2, wl_t0 = 0, wl_label = ''ship''\<rparr>" 3 "[]"]
  by (simp add: position_at_def)

subsection \<open>Interval classifier\<close>

lemma interval_squared_swap:
  "spacetime_interval_squared a b c = spacetime_interval_squared b a c"
proof -
  have "(c * (ev_t b - ev_t a)) ^ 2 = (c * (ev_t a - ev_t b)) ^ 2"
    by (simp add: power_mult_distrib power2_commute)
  moreover have "(ev_x b - ev_x a) ^ 2 = (ev_x a - ev_x b) ^ 2"
    by (rule power2_commute)
  ultimately show ?thesis
    by (simp add: spacetime_interval_squared_def Let_def)
qed

text \<open>
  C9. Swapping the two events negates both \<open>\<Delta>t\<close> and \<open>\<Delta>x\<close>, so the squared interval is
  unchanged, and with it the classification, for every \<open>c\<close> and every tolerance.
\<close>

theorem classify_interval_symmetric:
  "spacetime_interval_squared a b c = spacetime_interval_squared b a c \<and>
   classify_interval a b c tol = classify_interval b a c tol"
  using interval_squared_swap [of a b c] by (simp add: classify_interval_def)








subsection \<open>Intersection solver\<close>





subsection \<open>Interaction resolver\<close>



subsection \<open>The time-stepping loops\<close>

lemma step_count_zero_iff: "step_count t t_end dt = 0 \<longleftrightarrow> \<not> t \<le> t_end + 1 / 10 ^ 12"
  by (simp add: step_count_def)

lemma step_count_step:
  assumes "0 < dt" and "t \<le> t_end + 1 / 10 ^ 12"
  shows "step_count t t_end dt = Suc (step_count (t + dt) t_end dt)"
proof -
  let ?B = "t_end + 1 / 10 ^ 12"
  have q: "(?B - t) / dt = (?B - (t + dt)) / dt + 1"
    using assms(1) by (simp add: field_simps)
  have nn: "0 \<le> (?B - t) / dt" using assms by simp
  show ?thesis
  proof (cases "t + dt \<le> ?B")
    case True
    then have "0 \<le> (?B - (t + dt)) / dt" using assms(1) by simp
    then have "0 \<le> \<lfloor>(?B - (t + dt)) / dt\<rfloor>" by simp
    moreover have "\<lfloor>(?B - t) / dt\<rfloor> = \<lfloor>(?B - (t + dt)) / dt\<rfloor> + 1"
      by (subst q) simp
    ultimately show ?thesis using True assms(2) by (simp add: step_count_def nat_add_distrib)
  next
    case False
    then have "(?B - t) / dt < 1" using assms(1) by (simp add: field_simps)
    with nn have "\<lfloor>(?B - t) / dt\<rfloor> = 0" by (simp add: floor_eq_iff)
    then show ?thesis using False assms(2) by (simp add: step_count_def)
  qed
qed



lemma step_times_done: "\<not> t \<le> t_end + 1 / 10 ^ 12 \<Longrightarrow> step_times t t_end dt = []"
  by (simp add: step_times_def step_count_def)

lemma step_times_step:
  assumes "0 < dt" and "t \<le> t_end + 1 / 10 ^ 12"
  shows "step_times t t_end dt = t # step_times (t + dt) t_end dt"
proof -
  have "map (\<lambda>k. t + real k * dt) [0..<Suc n] = t # map (\<lambda>k. t + dt + real k * dt) [0..<n]"
    for n
    by (simp add: upt_conv_Cons map_Suc_upt [symmetric] algebra_simps del: upt_Suc)
  then show ?thesis
    by (simp only: step_times_def step_count_step [OF assms])
qed



lemma emitted_Nil: "emitted w pre p idx [] samples = []"
  by (simp add: emitted_def)

lemma emitted_Cons:
  "emitted w pre p idx (s # ts) (u # samples) =
     (if u < p
      then \<lparr>ev_t = s, ev_x = position_at w s, ev_label = pre @ ''-'' @ string_of_nat idx\<rparr>
             # emitted w pre p (Suc idx) ts samples
      else emitted w pre p idx ts samples)"
  by (simp add: emitted_def)


text \<open>
  The loop of the stochastic generator, from any state: with \<open>dt > 0\<close> it returns, after
  one draw for each remaining time step.
\<close>

lemma spontaneous_loop_run:
  assumes "0 < dt"
  shows "spontaneous_loop random w t_end dt p pre rng out idx t =
    Some (out @ emitted w pre p idx (step_times t t_end dt)
                  (fst (draws random (step_count t t_end dt) rng)),
          snd (draws random (step_count t t_end dt) rng))"
proof (induction "step_count t t_end dt" arbitrary: t rng out idx)
  case 0
  then have "\<not> t \<le> t_end + 1 / 10 ^ 12" by (simp add: step_count_zero_iff)
  then show ?case
    using 0 [symmetric]
    by (subst spontaneous_loop.simps) (simp add: step_times_done emitted_Nil)
next
  case (Suc n)
  then have le: "t \<le> t_end + 1 / 10 ^ 12"
    by (metis step_count_zero_iff Zero_not_Suc)
  have n: "n = step_count (t + dt) t_end dt"
    using Suc.hyps(2) step_count_step [OF assms le] by simp
  obtain u rng' where r: "random rng = (u, rng')" by (cases "random rng")
  obtain us rng'' where d: "draws random n rng' = (us, rng'')" by (cases "draws random n rng'")
  have c: "step_count t t_end dt = Suc n" using Suc.hyps(2) by simp
  show ?case
    apply (subst spontaneous_loop.simps)
    unfolding c step_times_step [OF assms le]
    using le d
    by (simp add: r event_at_labelled Suc.hyps(1) [OF n] n [symmetric] emitted_Cons)
qed

lemma spontaneous_events_run:
  assumes "0 < dt" and "0 \<le> p" and "p \<le> 1"
  shows "spontaneous_events random w t_start t_end dt p rng pre =
     Some (Inr (emitted w pre p 0 (step_times t_start t_end dt)
                  (fst (draws random (step_count t_start t_end dt) rng))),
           snd (draws random (step_count t_start t_end dt) rng))"
  using assms by (simp add: spontaneous_events_def spontaneous_loop_run)

text \<open>The loop of the conditional sampler, from any state.\<close>

lemma conditional_loop_run:
  assumes "0 < dt"
  shows "conditional_loop lines t_end dt predicate lbl out t =
    Some (out @ map (\<lambda>s. \<lparr>ev_t = s,
                           ev_x = sum_list (map (\<lambda>w. position_at w s) lines)
                                  / real (max 1 (length lines)),
                           ev_label = lbl\<rparr>)
               (filter (\<lambda>s. predicate s (map (\<lambda>w. event_at w s (wl_label w)) lines))
                  (step_times t t_end dt)))"
proof (induction "step_count t t_end dt" arbitrary: t out)
  case 0
  then have "\<not> t \<le> t_end + 1 / 10 ^ 12" by (simp add: step_count_zero_iff)
  then show ?case
    by (subst conditional_loop.simps) (simp add: step_times_done)
next
  case (Suc n)
  then have le: "t \<le> t_end + 1 / 10 ^ 12"
    by (metis step_count_zero_iff Zero_not_Suc)
  have n: "n = step_count (t + dt) t_end dt"
    using Suc.hyps(2) step_count_step [OF assms le] by simp
  have xs: "ev_x \<circ> (\<lambda>w. event_at w t (wl_label w)) = (\<lambda>w. position_at w t)"
    by (simp add: fun_eq_iff event_at_def)
  show ?case
    apply (subst conditional_loop.simps)
    using le by (simp add: Let_def Suc.hyps(1) [OF n] step_times_step [OF assms le] xs)
qed

lemma conditional_simulation_run:
  assumes "0 < dt"
  shows "conditional_simulation ws t_start t_end dt predicate lbl =
     Some (Inr (map (\<lambda>s. \<lparr>ev_t = s,
                           ev_x = sum_list (map (\<lambda>w. position_at w s) ws)
                                  / real (max 1 (length ws)),
                           ev_label = lbl\<rparr>)
               (filter (\<lambda>s. predicate s (map (\<lambda>w. event_at w s (wl_label w)) ws))
                  (step_times t_start t_end dt))))"
  using assms by (simp add: conditional_simulation_def conditional_loop_run)






subsection \<open>Stochastic event generator\<close>



subsection \<open>Conditional sampler\<close>



subsection \<open>Termination and the number of iterations\<close>




subsection \<open>Invalid arguments\<close>

text \<open>
  C4. \<open>null_line_through\<close> raises the invalid-argument error (\<^verbatim>\<open>ValueError\<close>) exactly when
  the direction is neither \<open>- 1\<close> nor \<open>+ 1\<close>, and returns the world line otherwise.
  \<open>spontaneous_events\<close> raises it exactly when \<open>dt \<le> 0\<close> or the probability is outside
  \<open>[0, 1]\<close>, leaving the random source untouched, and returns a list of events otherwise.
  \<open>conditional_simulation\<close> raises it exactly when \<open>dt \<le> 0\<close>, whatever the world lines and
  the predicate are, and returns a list of events otherwise. No call ends in another error.
\<close>

theorem invalid_argument_exactly:
  "(null_line_through e d c lbl = Inl (ValueError ''direction must be -1 or +1'')
      \<longleftrightarrow> d \<noteq> - 1 \<and> d \<noteq> 1)
 \<and> (null_line_through e d c lbl =
       Inr \<lparr>wl_x0 = ev_x e, wl_v = real_of_int d * c, wl_t0 = ev_t e, wl_label = lbl\<rparr>
      \<longleftrightarrow> d = - 1 \<or> d = 1)
 \<and> (spontaneous_events random w t_start t_end dt p rng pre =
       Some (Inl (ValueError ''dt must be > 0''), rng) \<longleftrightarrow> dt \<le> 0)
 \<and> (spontaneous_events random w t_start t_end dt p rng pre =
       Some (Inl (ValueError ''probability_per_step must be in [0, 1]''), rng)
      \<longleftrightarrow> 0 < dt \<and> (p < 0 \<or> 1 < p))
 \<and> ((\<exists>out rng'. spontaneous_events random w t_start t_end dt p rng pre = Some (Inr out, rng'))
      \<longleftrightarrow> 0 < dt \<and> 0 \<le> p \<and> p \<le> 1)
 \<and> (conditional_simulation ws t_start t_end dt predicate lbl' =
       Some (Inl (ValueError ''dt must be > 0'')) \<longleftrightarrow> dt \<le> 0)
 \<and> ((\<exists>out. conditional_simulation ws t_start t_end dt predicate lbl' = Some (Inr out))
      \<longleftrightarrow> 0 < dt)"
proof -
  have n1: "null_line_through e d c lbl = Inl (ValueError ''direction must be -1 or +1'')
      \<longleftrightarrow> d \<noteq> - 1 \<and> d \<noteq> 1"
    by (simp add: null_line_through_def)
  have n2: "null_line_through e d c lbl =
       Inr \<lparr>wl_x0 = ev_x e, wl_v = real_of_int d * c, wl_t0 = ev_t e, wl_label = lbl\<rparr>
      \<longleftrightarrow> d = - 1 \<or> d = 1"
    by (auto simp: null_line_through_def)
  have s1: "spontaneous_events random w t_start t_end dt p rng pre =
       Some (Inl (ValueError ''dt must be > 0''), rng) \<longleftrightarrow> dt \<le> 0"
    by (cases "0 < dt \<and> 0 \<le> p \<and> p \<le> 1")
      (auto simp: spontaneous_events_run, auto simp: spontaneous_events_def split: if_splits)
  have s2: "spontaneous_events random w t_start t_end dt p rng pre =
       Some (Inl (ValueError ''probability_per_step must be in [0, 1]''), rng)
      \<longleftrightarrow> 0 < dt \<and> (p < 0 \<or> 1 < p)"
    by (cases "0 < dt \<and> 0 \<le> p \<and> p \<le> 1")
      (auto simp: spontaneous_events_run, auto simp: spontaneous_events_def split: if_splits)
  have s3: "(\<exists>out rng'. spontaneous_events random w t_start t_end dt p rng pre
                = Some (Inr out, rng'))
      \<longleftrightarrow> 0 < dt \<and> 0 \<le> p \<and> p \<le> 1"
    by (cases "0 < dt \<and> 0 \<le> p \<and> p \<le> 1")
      (auto simp: spontaneous_events_run, auto simp: spontaneous_events_def split: if_splits)
  have c1: "conditional_simulation ws t_start t_end dt predicate lbl' =
       Some (Inl (ValueError ''dt must be > 0'')) \<longleftrightarrow> dt \<le> 0"
    by (cases "0 < dt")
      (auto simp: conditional_simulation_run, auto simp: conditional_simulation_def
        split: if_splits)
  have c2: "(\<exists>out. conditional_simulation ws t_start t_end dt predicate lbl' = Some (Inr out))
      \<longleftrightarrow> 0 < dt"
    by (cases "0 < dt")
      (auto simp: conditional_simulation_run, auto simp: conditional_simulation_def
        split: if_splits)
  from n1 n2 s1 s2 s3 c1 c2 show ?thesis by (intro conjI)
qed

theorem invalid_argument_exactly_witness:
  "null_line_through \<lparr>ev_t = 0, ev_x = 0, ev_label = []\<rparr> 2 1 ''light''
     = Inl (ValueError ''direction must be -1 or +1'')
   \<and> spontaneous_events replay \<lparr>wl_x0 = 0, wl_v = 0, wl_t0 = 0, wl_label = []\<rparr>
       0 1 0 (1 / 2) [1 / 4] ''spontaneous'' = Some (Inl (ValueError ''dt must be > 0''), [1 / 4])
   \<and> spontaneous_events replay \<lparr>wl_x0 = 0, wl_v = 0, wl_t0 = 0, wl_label = []\<rparr>
       0 1 1 2 [1 / 4] ''spontaneous''
     = Some (Inl (ValueError ''probability_per_step must be in [0, 1]''), [1 / 4])
   \<and> conditional_simulation [] 0 1 (- 1) always ''conditional''
     = Some (Inl (ValueError ''dt must be > 0''))"
  using invalid_argument_exactly [where e = "\<lparr>ev_t = 0, ev_x = 0, ev_label = []\<rparr>" and d = 2
        and c = 1 and lbl = "''light''" and random = replay
        and w = "\<lparr>wl_x0 = 0, wl_v = 0, wl_t0 = 0, wl_label = []\<rparr>" and t_start = 0
        and t_end = 1 and dt = 0 and p = "1 / 2" and rng = "[1 / 4]"
        and pre = "''spontaneous''" and ws = "[]" and predicate = always
        and lbl' = "''conditional''"]
    invalid_argument_exactly [where e = "\<lparr>ev_t = 0, ev_x = 0, ev_label = []\<rparr>" and d = 2
        and c = 1 and lbl = "''light''" and random = replay
        and w = "\<lparr>wl_x0 = 0, wl_v = 0, wl_t0 = 0, wl_label = []\<rparr>" and t_start = 0
        and t_end = 1 and dt = 1 and p = 2 and rng = "[1 / 4]"
        and pre = "''spontaneous''" and ws = "[]" and predicate = always
        and lbl' = "''conditional''"]
    invalid_argument_exactly [where e = "\<lparr>ev_t = 0, ev_x = 0, ev_label = []\<rparr>" and d = 2
        and c = 1 and lbl = "''light''" and random = replay
        and w = "\<lparr>wl_x0 = 0, wl_v = 0, wl_t0 = 0, wl_label = []\<rparr>" and t_start = 0
        and t_end = 1 and dt = "- 1" and p = 2 and rng = "[1 / 4]"
        and pre = "''spontaneous''" and ws = "[]" and predicate = always
        and lbl' = "''conditional''"]
  by simp

end
